theory Spec2Isabelle
  imports Main "HOL-Library.Sublist"
begin

section \<open>The multi-site connection manager (multi-site-connection.js)\<close>

text \<open>
  The manager is the class \<open>MultiSiteConnectionManager\<close>: two insertion-ordered maps
  (\<open>connections\<close>, \<open>libsqlClients\<close>) from site id to a driver handle, and the field
  \<open>currentSite\<close>. Everything it calls from outside the repository (Node's \<open>path\<close>
  module, \<open>config.get('database')\<close>, \<open>knex\<close>, \<open>createClient\<close>, the handles' \<open>execute\<close>,
  \<open>destroy\<close> and \<open>close\<close>) is a field of the environment \<open>env\<close>, so every theorem
  without a premise on \<open>env\<close> holds for every such collaborator.
\<close>

subsection \<open>Data\<close>

text \<open>The value of \<open>dbConfig.pool\<close>: what the base configuration had, or one of the two
  \<open>afterCreate\<close> hooks that \<open>configureSiteDatabase\<close> installs.\<close>

datatype pool_cfg = InheritedPool | BetterSqlite3AfterCreate | Sqlite3AfterCreate

text \<open>A knex database configuration. \<open>filename\<close> and \<open>database\<close> are the properties of
  \<open>dbConfig.connection\<close>; \<open>None\<close> is an absent property (\<open>undefined\<close>).\<close>

record db_config =
  client :: string
  filename :: "string option"
  database :: "string option"
  useNullAsDefault :: "bool option"
  pool :: "pool_cfg option"

text \<open>The errors thrown: the two Ghost error classes, Node's \<open>TypeError\<close> for a
  non-string path argument, and whatever a driver call throws or rejects with.\<close>

datatype error =
    IncorrectUsageError string
  | ValidationError string
  | TypeError string
  | DriverError string

fun message :: "error \<Rightarrow> string" where
  "message (IncorrectUsageError m) = m"
| "message (ValidationError m) = m"
| "message (TypeError m) = m"
| "message (DriverError m) = m"

datatype log_entry = Info string | Error string

type_synonym row = "string list"

text \<open>What reached the drivers, in order: a handle is a number, fresh for every object a
  driver constructor returns, so reference equality of handles is equality of numbers.
  The flag of \<open>Executed\<close>, \<open>Destroyed\<close> and \<open>Closed\<close> says whether the call succeeded.\<close>

datatype event =
    KnexCreated nat db_config
  | ClientCreated nat string
  | Executed nat string bool
  | Destroyed nat bool
  | Closed nat bool

record env =
  path_extname :: "string \<Rightarrow> string"
  path_basename :: "string \<Rightarrow> string \<Rightarrow> string"
  path_dirname :: "string \<Rightarrow> string"
  path_join :: "string \<Rightarrow> string \<Rightarrow> string"
  path_resolve :: "string \<Rightarrow> string"
  config_database :: db_config
  knex_new :: "db_config \<Rightarrow> string option"
  createClient :: "string \<Rightarrow> string option"
  client_execute :: "event list \<Rightarrow> nat \<Rightarrow> string \<Rightarrow> string + row list"
  knex_destroy :: "event list \<Rightarrow> nat \<Rightarrow> string option"
  client_close :: "event list \<Rightarrow> nat \<Rightarrow> string option"

text \<open>The manager object (\<open>connections\<close>, \<open>libsqlClients\<close>, \<open>currentSite\<close>) together with
  what it has done to the outside: handles allocated, driver calls, log lines.\<close>

record state =
  connections :: "(string \<times> nat) list"
  libsqlClients :: "(string \<times> nat) list"
  currentSite :: "string option"
  next_handle :: nat
  events :: "event list"
  logs :: "log_entry list"

definition new_manager :: state where
  "new_manager = \<lparr>connections = [], libsqlClients = [], currentSite = None,
     next_handle = 0, events = [], logs = []\<rparr>"

subsection \<open>JavaScript helpers\<close>

text \<open>\<open>!siteId\<close> for a site id that is a string or missing (\<open>undefined\<close>).\<close>

definition falsy :: "string option \<Rightarrow> bool" where
  "falsy siteId = (case siteId of None \<Rightarrow> True | Some sid \<Rightarrow> sid = [])"

text \<open>A number inside a template literal: its decimal digits.\<close>

fun show_nat :: "nat \<Rightarrow> string" where
  "show_nat n =
     (if n < 10 then [''0123456789'' ! n]
      else show_nat (n div 10) @ [''0123456789'' ! (n mod 10)])"

declare show_nat.simps [simp del]

definition invalid_path_arg :: "string \<Rightarrow> error" where
  "invalid_path_arg name =
     TypeError (''The '' @ [CHR 0x22] @ name @ [CHR 0x22]
       @ '' argument must be of type string. Received undefined'')"

subsection \<open>configureSiteDatabase\<close>

text \<open>The method reads nothing of \<open>this\<close> and works on a deep clone of the base
  configuration, so it is a function of its two arguments (and the \<open>path\<close> module); the
  second component is the line it logs.\<close>

definition configureSiteDatabase ::
  "env \<Rightarrow> string \<Rightarrow> db_config \<Rightarrow> (error + db_config) \<times> log_entry list" where
  "configureSiteDatabase e siteId baseDbConfig =
     (let dbConfig = baseDbConfig; cl = client dbConfig in
      if cl = ''sqlite3'' \<or> cl = ''better-sqlite3'' then
        (case filename dbConfig of
           None \<Rightarrow> (Inl (invalid_path_arg ''path''), [])
         | Some originalFilename \<Rightarrow>
             (let ext = path_extname e originalFilename;
                  baseName = path_basename e originalFilename ext;
                  dirName = path_dirname e originalFilename;
                  fn = path_join e dirName (baseName @ ''-'' @ siteId @ ext)
              in (Inr (dbConfig\<lparr>
                    filename := Some fn,
                    useNullAsDefault :=
                      (case useNullAsDefault dbConfig of Some v \<Rightarrow> Some v | None \<Rightarrow> Some True),
                    pool := Some (if cl = ''better-sqlite3'' then BetterSqlite3AfterCreate
                                  else Sqlite3AfterCreate)\<rparr>),
                  [Info (''[MultiSite] Site '' @ siteId @ '' database: '' @ fn)])))
      else if cl = ''libsql'' then
        (let fn = ''content/data/ghost-'' @ siteId @ ''.db''
         in (Inr (dbConfig\<lparr>database := Some (''ghost_site_'' @ siteId), filename := Some fn\<rparr>),
             [Info (''[MultiSite] LibSQL Site '' @ siteId @ '' database: '' @ fn)]))
      else (Inr dbConfig, []))"

subsection \<open>getSiteConnection and getLibSQLClient\<close>

definition getSiteConnection :: "env \<Rightarrow> string option \<Rightarrow> state \<Rightarrow> (error + nat) \<times> state" where
  "getSiteConnection e siteId s =
     (if falsy siteId then
        (Inl (IncorrectUsageError ''Site ID is required for multi-site database connection''), s)
      else
        (let sid = the siteId in
         case map_of (connections s) sid of
           Some connection \<Rightarrow> (Inr connection, s)
         | None \<Rightarrow>
            (case configureSiteDatabase e sid (config_database e) of
               (Inl err, lg) \<Rightarrow> (Inl err, s\<lparr>logs := logs s @ lg\<rparr>)
             | (Inr siteDbConfig, lg) \<Rightarrow>
                (case knex_new e siteDbConfig of
                   Some msg \<Rightarrow> (Inl (DriverError msg), s\<lparr>logs := logs s @ lg\<rparr>)
                 | None \<Rightarrow>
                    (let connection = next_handle s in
                     (Inr connection,
                      s\<lparr>connections := connections s @ [(sid, connection)],
                        next_handle := Suc connection,
                        events := events s @ [KnexCreated connection siteDbConfig],
                        logs := logs s @ lg @
                          [Info (''[MultiSite] Created new database connection for site: ''
                                 @ sid)]\<rparr>))))))"

definition getLibSQLClient :: "env \<Rightarrow> string option \<Rightarrow> state \<Rightarrow> (error + nat) \<times> state" where
  "getLibSQLClient e siteId s =
     (if falsy siteId then
        (Inl (IncorrectUsageError ''Site ID is required for libSQL client''), s)
      else
        (let sid = the siteId in
         case map_of (libsqlClients s) sid of
           Some cl \<Rightarrow> (Inr cl, s)
         | None \<Rightarrow>
            (case configureSiteDatabase e sid (config_database e) of
               (Inl err, lg) \<Rightarrow> (Inl err, s\<lparr>logs := logs s @ lg\<rparr>)
             | (Inr siteDbConfig, lg) \<Rightarrow>
                (case filename siteDbConfig of
                   None \<Rightarrow> (Inl (invalid_path_arg ''paths[0]''), s\<lparr>logs := logs s @ lg\<rparr>)
                 | Some fn \<Rightarrow>
                    (let url = ''file:'' @ path_resolve e fn in
                     case createClient e url of
                       Some msg \<Rightarrow> (Inl (DriverError msg), s\<lparr>logs := logs s @ lg\<rparr>)
                     | None \<Rightarrow>
                        (let cl = next_handle s in
                         (Inr cl,
                          s\<lparr>libsqlClients := libsqlClients s @ [(sid, cl)],
                            next_handle := Suc cl,
                            events := events s @ [ClientCreated cl url],
                            logs := logs s @ lg @
                              [Info (''[MultiSite] Created libSQL client for site: ''
                                     @ sid)]\<rparr>)))))))"

subsection \<open>executeCrossSiteQuery\<close>

text \<open>The template literal \<open>ATTACH DATABASE '${file}' AS ${alias}\<close>.\<close>

definition attach_statement :: "string \<Rightarrow> string \<Rightarrow> string" where
  "attach_statement file alias =
     ''ATTACH DATABASE '' @ [CHR 0x27] @ file @ [CHR 0x27] @ '' AS '' @ alias"

text \<open>The \<open>for\<close> loop over \<open>additionalSiteIds.entries()\<close>: \<open>index\<close> counts from 0, the
  first element of the result is the error that left the loop, if any. The elements are
  strings, as the method's JSDoc says (\<open>Array<string>\<close>); the loop checks nothing about
  them.\<close>

fun attach_loop :: "env \<Rightarrow> nat \<Rightarrow> nat \<Rightarrow> string list \<Rightarrow> state \<Rightarrow> error option \<times> state" where
  "attach_loop e libsqlClient index [] s = (None, s)"
| "attach_loop e libsqlClient index (siteId # rest) s =
     (case configureSiteDatabase e siteId (config_database e) of
        (Inl err, lg) \<Rightarrow> (Some err, s\<lparr>logs := logs s @ lg\<rparr>)
      | (Inr siteConfig, lg) \<Rightarrow>
         (case filename siteConfig of
            None \<Rightarrow> (Some (invalid_path_arg ''paths[0]''), s\<lparr>logs := logs s @ lg\<rparr>)
          | Some fn \<Rightarrow>
             (let attachQuery =
                    attach_statement (path_resolve e fn) (''site'' @ show_nat (index + 2))
              in case client_execute e (events s) libsqlClient attachQuery of
                   Inl msg \<Rightarrow>
                     (Some (DriverError msg),
                      s\<lparr>events := events s @ [Executed libsqlClient attachQuery False],
                        logs := logs s @ lg\<rparr>)
                 | Inr rows \<Rightarrow>
                     attach_loop e libsqlClient (Suc index) rest
                       (s\<lparr>events := events s @ [Executed libsqlClient attachQuery True],
                          logs := logs s @ lg\<rparr>))))"

definition executeCrossSiteQuery ::
  "env \<Rightarrow> string option \<Rightarrow> string list \<Rightarrow> string \<Rightarrow> state \<Rightarrow> (error + row list) \<times> state" where
  "executeCrossSiteQuery e primarySiteId additionalSiteIds query s =
     (case getLibSQLClient e primarySiteId s of
        (Inl err, s1) \<Rightarrow> (Inl err, s1)
      | (Inr libsqlClient, s1) \<Rightarrow>
         (case attach_loop e libsqlClient 0 additionalSiteIds s1 of
            (Some err, s2) \<Rightarrow>
              (Inl err,
               s2\<lparr>logs := logs s2 @
                  [Error (''[MultiSite] Cross-site query failed: '' @ message err)]\<rparr>)
          | (None, s2) \<Rightarrow>
             (case client_execute e (events s2) libsqlClient query of
                Inl msg \<Rightarrow>
                  (Inl (DriverError msg),
                   s2\<lparr>events := events s2 @ [Executed libsqlClient query False],
                      logs := logs s2 @
                        [Error (''[MultiSite] Cross-site query failed: '' @ msg)]\<rparr>)
              | Inr rows \<Rightarrow>
                  (Inr rows, s2\<lparr>events := events s2 @ [Executed libsqlClient query True]\<rparr>))))"

subsection \<open>setCurrentSite, getCurrentSite, createSite\<close>

definition setCurrentSite :: "string option \<Rightarrow> state \<Rightarrow> state" where
  "setCurrentSite siteId s = s\<lparr>currentSite := siteId\<rparr>"

definition getCurrentSite :: "state \<Rightarrow> string option" where
  "getCurrentSite s = currentSite s"

text \<open>\<open>this.connections.has(siteId)\<close>; a missing id is never a key.\<close>

definition has :: "(string \<times> nat) list \<Rightarrow> string option \<Rightarrow> bool" where
  "has m siteId = (case siteId of None \<Rightarrow> False | Some sid \<Rightarrow> map_of m sid \<noteq> None)"

definition createSite :: "env \<Rightarrow> string option \<Rightarrow> state \<Rightarrow> (error + nat) \<times> state" where
  "createSite e siteId s =
     (if has (connections s) siteId then
        (Inl (ValidationError (''Site '' @ the siteId @ '' already exists'')), s)
      else
        (case getSiteConnection e siteId s of
           (Inl err, s1) \<Rightarrow> (Inl err, s1)
         | (Inr connection, s1) \<Rightarrow>
             (Inr connection,
              s1\<lparr>logs := logs s1 @
                 [Info (''[MultiSite] Site '' @ the siteId @ '' database created and ready'')]\<rparr>)))"

subsection \<open>destroy\<close>

text \<open>The two \<open>for\<close> loops of \<open>destroy\<close>. Neither has a \<open>try\<close>: a rejected
  \<open>connection.destroy()\<close> or a throwing \<open>client.close()\<close> leaves the method at once.\<close>

fun destroy_connections :: "env \<Rightarrow> (string \<times> nat) list \<Rightarrow> state \<Rightarrow> error option \<times> state" where
  "destroy_connections e [] s = (None, s)"
| "destroy_connections e ((siteId, connection) # rest) s =
     (case knex_destroy e (events s) connection of
        Some msg \<Rightarrow> (Some (DriverError msg), s\<lparr>events := events s @ [Destroyed connection False]\<rparr>)
      | None \<Rightarrow>
          destroy_connections e rest
            (s\<lparr>events := events s @ [Destroyed connection True],
               logs := logs s @
                 [Info (''[MultiSite] Destroyed connection for site: '' @ siteId)]\<rparr>))"

fun close_clients :: "env \<Rightarrow> (string \<times> nat) list \<Rightarrow> state \<Rightarrow> error option \<times> state" where
  "close_clients e [] s = (None, s)"
| "close_clients e ((siteId, cl) # rest) s =
     (case client_close e (events s) cl of
        Some msg \<Rightarrow> (Some (DriverError msg), s\<lparr>events := events s @ [Closed cl False]\<rparr>)
      | None \<Rightarrow>
          close_clients e rest
            (s\<lparr>events := events s @ [Closed cl True],
               logs := logs s @
                 [Info (''[MultiSite] Closed libSQL client for site: '' @ siteId)]\<rparr>))"

definition destroy :: "env \<Rightarrow> state \<Rightarrow> (error + unit) \<times> state" where
  "destroy e s =
     (case destroy_connections e (connections s) s of
        (Some err, s1) \<Rightarrow> (Inl err, s1)
      | (None, s1) \<Rightarrow>
         (case close_clients e (libsqlClients s1) s1 of
            (Some err, s2) \<Rightarrow> (Inl err, s2)
          | (None, s2) \<Rightarrow> (Inr (), s2\<lparr>connections := [], libsqlClients := []\<rparr>)))"

section \<open>Vocabulary for the properties\<close>

text \<open>The statements that reached \<open>execute\<close>, in order, whatever their outcome.\<close>

fun statements :: "event list \<Rightarrow> string list" where
  "statements [] = []"
| "statements (Executed c q ok # evs) = q # statements evs"
| "statements (KnexCreated h cfg # evs) = statements evs"
| "statements (ClientCreated h url # evs) = statements evs"
| "statements (Destroyed h ok # evs) = statements evs"
| "statements (Closed h ok # evs) = statements evs"




text \<open>The specification's "executing the query directly against the tenant's handle":
  get the tenant's libSQL client and run the query on it, nothing else.\<close>

definition query_primary_directly ::
  "env \<Rightarrow> string option \<Rightarrow> string \<Rightarrow> state \<Rightarrow> (error + row list) \<times> state" where
  "query_primary_directly e siteId query s =
     (case getLibSQLClient e siteId s of
        (Inl err, s1) \<Rightarrow> (Inl err, s1)
      | (Inr libsqlClient, s1) \<Rightarrow>
         (case client_execute e (events s1) libsqlClient query of
            Inl msg \<Rightarrow>
              (Inl (DriverError msg),
               s1\<lparr>events := events s1 @ [Executed libsqlClient query False]\<rparr>)
          | Inr rows \<Rightarrow>
              (Inr rows, s1\<lparr>events := events s1 @ [Executed libsqlClient query True]\<rparr>)))"




text \<open>Two states that differ at most in the stored current site.\<close>

definition differ_only_in_currentSite :: "state \<Rightarrow> state \<Rightarrow> bool" where
  "differ_only_in_currentSite s s' =
     (connections s = connections s' \<and> libsqlClients s = libsqlClients s'
      \<and> next_handle s = next_handle s' \<and> events s = events s' \<and> logs s = logs s')"

section \<open>A concrete environment\<close>

text \<open>
  To run the manager on concrete inputs the environment needs values. The path functions
  below are the POSIX behaviour of Node's \<open>path\<close> module on segments: \<open>normalize\<close>
  drops empty and \<open>.\<close> segments and resolves \<open>..\<close> against the segment before it,
  \<open>join\<close> normalizes the arguments joined by \<open>/\<close>, \<open>resolve\<close> does so below the working
  directory. They are used for witnesses and counterexamples only; the general theorems
  quantify over the environment.
\<close>

fun split_on :: "char \<Rightarrow> string \<Rightarrow> string list" where
  "split_on c [] = [[]]"
| "split_on c (x # xs) =
     (if x = c then [] # split_on c xs
      else (case split_on c xs of [] \<Rightarrow> [[x]] | h # t \<Rightarrow> (x # h) # t))"

fun join_slash :: "string list \<Rightarrow> string" where
  "join_slash [] = []"
| "join_slash [x] = x"
| "join_slash (x # y # ys) = x @ ''/'' @ join_slash (y # ys)"

definition norm_step :: "bool \<Rightarrow> string list \<Rightarrow> string \<Rightarrow> string list" where
  "norm_step allowAboveRoot res seg =
     (if seg = [] \<or> seg = ''.'' then res
      else if seg = ''..'' then
        (if res \<noteq> [] \<and> last res \<noteq> ''..'' then butlast res
         else if allowAboveRoot then res @ [''..''] else res)
      else res @ [seg])"

definition normalizeString :: "string \<Rightarrow> bool \<Rightarrow> string" where
  "normalizeString p allowAboveRoot =
     join_slash (foldl (norm_step allowAboveRoot) [] (split_on CHR ''/'' p))"

definition posix_normalize :: "string \<Rightarrow> string" where
  "posix_normalize p =
     (if p = [] then ''.''
      else
        (let isAbsolute = (hd p = CHR ''/'');
             trailingSeparator = (last p = CHR ''/'');
             r = normalizeString p (\<not> isAbsolute)
         in if r = [] then (if isAbsolute then ''/'' else if trailingSeparator then ''./'' else ''.'')
            else (if isAbsolute then ''/'' else []) @ r @ (if trailingSeparator then ''/'' else [])))"

definition posix_join :: "string \<Rightarrow> string \<Rightarrow> string" where
  "posix_join a b =
     (let joined = (if a = [] then b else if b = [] then a else a @ ''/'' @ b)
      in if joined = [] then ''.'' else posix_normalize joined)"

definition posix_resolve :: "string \<Rightarrow> string \<Rightarrow> string" where
  "posix_resolve cwd p =
     (let resolvedPath =
            (if p = [] then cwd @ ''/''
             else if hd p = CHR ''/'' then p @ ''/''
             else cwd @ ''/'' @ p @ ''/'');
          resolvedAbsolute = (resolvedPath \<noteq> [] \<and> hd resolvedPath = CHR ''/'');
          r = normalizeString resolvedPath (\<not> resolvedAbsolute)
      in if resolvedAbsolute then ''/'' @ r else if r = [] then ''.'' else r)"

text \<open>The last component of a path, trailing separators ignored.\<close>

definition last_component :: "string \<Rightarrow> string" where
  "last_component p =
     rev (takeWhile (\<lambda>c. c \<noteq> CHR ''/'') (dropWhile (\<lambda>c. c = CHR ''/'') (rev p)))"

definition posix_extname :: "string \<Rightarrow> string" where
  "posix_extname p =
     (let c = last_component p;
          after_dot = takeWhile (\<lambda>x. x \<noteq> CHR ''.'') (rev c)
      in if c = ''..'' \<or> CHR ''.'' \<notin> set c \<or> Suc (length after_dot) = length c then []
         else CHR ''.'' # rev after_dot)"

definition posix_basename :: "string \<Rightarrow> string \<Rightarrow> string" where
  "posix_basename p sfx =
     (let c = last_component p
      in if sfx \<noteq> [] \<and> length sfx \<le> length p then
           (if sfx = p then []
            else if c \<noteq> sfx \<and> length sfx \<le> length c
                    \<and> drop (length c - length sfx) c = sfx
                 then take (length c - length sfx) c
            else c)
         else c)"

definition posix_dirname :: "string \<Rightarrow> string" where
  "posix_dirname p =
     (if p = [] then ''.''
      else
        (let hasRoot = (hd p = CHR ''/'');
             r = dropWhile (\<lambda>c. c \<noteq> CHR ''/'') (dropWhile (\<lambda>c. c = CHR ''/'') (rev (tl p)))
         in case r of
              [] \<Rightarrow> (if hasRoot then ''/'' else ''.'')
            | _ # rest \<Rightarrow> (if hasRoot \<and> rest = [] then ''//'' else hd p # rev rest)))"

text \<open>An environment with these path functions, working directory \<open>cwd\<close>, base
  configuration \<open>db\<close>, and drivers that never fail and return no rows.\<close>

definition posix_env :: "string \<Rightarrow> db_config \<Rightarrow> env" where
  "posix_env cwd db =
     \<lparr>path_extname = posix_extname, path_basename = posix_basename,
      path_dirname = posix_dirname, path_join = posix_join,
      path_resolve = posix_resolve cwd, config_database = db,
      knex_new = (\<lambda>_. None), createClient = (\<lambda>_. None),
      client_execute = (\<lambda>_ _ _. Inr []),
      knex_destroy = (\<lambda>_ _. None), client_close = (\<lambda>_ _. None)\<rparr>"

text \<open>The base configuration of the repository's own test script
  (\<open>client: 'better-sqlite3'\<close>, \<open>filename: 'content/data/ghost-dev.db'\<close>), the same with
  the libSQL client, and a MySQL configuration, which has no file name.\<close>

definition mock_database :: db_config where
  "mock_database = \<lparr>client = ''better-sqlite3'', filename = Some ''content/data/ghost-dev.db'',
     database = None, useNullAsDefault = Some True, pool = None\<rparr>"








abbreviation test_env :: env where
  "test_env \<equiv> posix_env ''/srv/ghost'' mock_database"



section \<open>Properties\<close>

subsection \<open>Auxiliary facts\<close>

lemma statements_append: "statements (xs @ ys) = statements xs @ statements ys"
  by (induction xs rule: statements.induct) simp_all

lemma getLibSQLClient_statements:
  "statements (events (snd (getLibSQLClient e t s))) = statements (events s)"
  unfolding getLibSQLClient_def
  by (simp add: Let_def statements_append split: option.splits sum.splits prod.splits)

subsection \<open>Missing site ids\<close>

text \<open>
  C10. For a missing (\<open>undefined\<close>) or empty site id, \<open>getSiteConnection\<close> and
  \<open>getLibSQLClient\<close> throw \<open>IncorrectUsageError\<close> with their "Site ID is required ..."
  messages, and the whole state is as before: no entry is created in or removed from either
  cache, no driver is called, nothing is logged.
\<close>

theorem missing_site_id_rejected:
  "falsy siteId \<Longrightarrow>
     getSiteConnection e siteId s
       = (Inl (IncorrectUsageError ''Site ID is required for multi-site database connection''), s)
   \<and> getLibSQLClient e siteId s
       = (Inl (IncorrectUsageError ''Site ID is required for libSQL client''), s)"
  by (simp add: getSiteConnection_def getLibSQLClient_def)

theorem missing_site_id_rejected_witness:
  "(getSiteConnection test_env None new_manager
       = (Inl (IncorrectUsageError ''Site ID is required for multi-site database connection''),
          new_manager)
    \<and> getLibSQLClient test_env None new_manager
       = (Inl (IncorrectUsageError ''Site ID is required for libSQL client''), new_manager))
   \<and> (getSiteConnection test_env (Some []) new_manager
       = (Inl (IncorrectUsageError ''Site ID is required for multi-site database connection''),
          new_manager)
    \<and> getLibSQLClient test_env (Some []) new_manager
       = (Inl (IncorrectUsageError ''Site ID is required for libSQL client''), new_manager))"
proof -
  have a: "falsy None" by (simp add: falsy_def)
  have b: "falsy (Some [])" by (simp add: falsy_def)
  show ?thesis
    using missing_site_id_rejected [OF a] missing_site_id_rejected [OF b] by blast
qed

subsection \<open>One connection per site\<close>

text \<open>
  C5. Whenever \<open>getSiteConnection(t)\<close> returns a handle, calling it again returns the
  identical handle and changes nothing at all, so it opens no session. The first call
  either found an entry for \<open>t\<close>, and returned it leaving the state as it was, or found
  none, and then created exactly one connection (one \<open>knex\<close> call, the next fresh handle),
  stored it under \<open>t\<close> and returned it.
\<close>

theorem getSiteConnection_twice:
  "getSiteConnection e t s = (Inr h, s1) \<Longrightarrow>
     getSiteConnection e t s1 = (Inr h, s1)
   \<and> (case map_of (connections s) (the t) of
         Some h0 \<Rightarrow> h = h0 \<and> s1 = s
       | None \<Rightarrow>
           h = next_handle s \<and> next_handle s1 = Suc h
         \<and> connections s1 = connections s @ [(the t, h)]
         \<and> (\<exists>cfg. events s1 = events s @ [KnexCreated h cfg])
         \<and> libsqlClients s1 = libsqlClients s)"
  unfolding getSiteConnection_def
  by (auto simp: Let_def map_add_def split: if_splits option.splits sum.splits prod.splits)

theorem getSiteConnection_twice_witness:
  "getSiteConnection test_env (Some ''creator1'')
       (snd (getSiteConnection test_env (Some ''creator1'') new_manager))
     = (Inr 0, snd (getSiteConnection test_env (Some ''creator1'') new_manager))
   \<and> (case map_of (connections new_manager) (the (Some ''creator1'')) of
         Some h0 \<Rightarrow>
           0 = h0 \<and> snd (getSiteConnection test_env (Some ''creator1'') new_manager) = new_manager
       | None \<Rightarrow>
           0 = next_handle new_manager
         \<and> next_handle (snd (getSiteConnection test_env (Some ''creator1'') new_manager)) = Suc 0
         \<and> connections (snd (getSiteConnection test_env (Some ''creator1'') new_manager))
              = connections new_manager @ [(the (Some ''creator1''), 0)]
         \<and> (\<exists>cfg. events (snd (getSiteConnection test_env (Some ''creator1'') new_manager))
              = events new_manager @ [KnexCreated 0 cfg])
         \<and> libsqlClients (snd (getSiteConnection test_env (Some ''creator1'') new_manager))
              = libsqlClients new_manager)"
proof -
  have h: "getSiteConnection test_env (Some ''creator1'') new_manager
             = (Inr 0, snd (getSiteConnection test_env (Some ''creator1'') new_manager))"
    by code_simp
  show ?thesis by (rule getSiteConnection_twice [OF h])
qed


subsection \<open>Registering a site twice\<close>

text \<open>
  C6. \<open>createSite(t)\<close> for a \<open>t\<close> that already has a connection throws the
  \<open>ValidationError\<close> "Site t already exists" (the manager's duplicate-tenant error) and
  leaves the state as it was. For a \<open>t\<close> that has none, is not empty, and whose derived
  configuration the driver accepts, it succeeds: it returns the fresh handle and \<open>t\<close> is
  registered afterwards.
\<close>

theorem createSite_duplicate:
  "(has (connections s) (Some t) \<longrightarrow>
      createSite e (Some t) s = (Inl (ValidationError (''Site '' @ t @ '' already exists'')), s))
   \<and> (\<not> has (connections s) (Some t) \<and> t \<noteq> []
        \<and> fst (configureSiteDatabase e t (config_database e)) = Inr cfg
        \<and> knex_new e cfg = None \<longrightarrow>
      fst (createSite e (Some t) s) = Inr (next_handle s)
      \<and> connections (snd (createSite e (Some t) s)) = connections s @ [(t, next_handle s)]
      \<and> has (connections (snd (createSite e (Some t) s))) (Some t))"
  unfolding createSite_def getSiteConnection_def has_def falsy_def
  by (auto simp: Let_def map_add_def split: if_splits option.splits sum.splits prod.splits)

theorem createSite_duplicate_witness:
  "createSite test_env (Some ''creator1'') (snd (createSite test_env (Some ''creator1'') new_manager))
     = (Inl (ValidationError (''Site '' @ ''creator1'' @ '' already exists'')),
        snd (createSite test_env (Some ''creator1'') new_manager))
   \<and> fst (createSite test_env (Some ''creator1'') new_manager) = Inr (next_handle new_manager)
   \<and> connections (snd (createSite test_env (Some ''creator1'') new_manager))
        = connections new_manager @ [(''creator1'', next_handle new_manager)]
   \<and> has (connections (snd (createSite test_env (Some ''creator1'') new_manager))) (Some ''creator1'')"
proof -
  have a: "has (connections (snd (createSite test_env (Some ''creator1'') new_manager)))
             (Some ''creator1'')"
    by code_simp
  have b: "\<not> has (connections new_manager) (Some ''creator1'') \<and> ''creator1'' \<noteq> []
        \<and> fst (configureSiteDatabase test_env ''creator1'' (config_database test_env))
             = Inr (mock_database\<lparr>filename := Some ''content/data/ghost-dev-creator1.db'',
                      pool := Some BetterSqlite3AfterCreate\<rparr>)
        \<and> knex_new test_env (mock_database\<lparr>filename := Some ''content/data/ghost-dev-creator1.db'',
                      pool := Some BetterSqlite3AfterCreate\<rparr>) = None"
    by code_simp
  show ?thesis
    using createSite_duplicate [of "snd (createSite test_env (Some ''creator1'') new_manager)"
            "''creator1''" test_env]
          createSite_duplicate [of new_manager "''creator1''" test_env
            "mock_database\<lparr>filename := Some ''content/data/ghost-dev-creator1.db'',
                      pool := Some BetterSqlite3AfterCreate\<rparr>"]
          a b
    by blast
qed

subsection \<open>A federation call without secondaries\<close>

text \<open>
  C8. \<open>executeCrossSiteQuery(t, [], q)\<close> returns what running \<open>q\<close> directly on \<open>t\<close>'s
  libSQL client returns, rows or error alike; the two leave the same state except for the
  log (the federation call logs a failed query), and the same state altogether when rows
  are returned. The only statement that reaches the client is \<open>q\<close>: nothing is attached
  or detached.
\<close>

theorem federate_no_secondaries:
  "fst (executeCrossSiteQuery e t [] q s) = fst (query_primary_directly e t q s)
   \<and> snd (executeCrossSiteQuery e t [] q s)
       = (snd (query_primary_directly e t q s))
           \<lparr>logs := logs (snd (executeCrossSiteQuery e t [] q s))\<rparr>
   \<and> (case fst (executeCrossSiteQuery e t [] q s) of
         Inr rows \<Rightarrow> snd (executeCrossSiteQuery e t [] q s) = snd (query_primary_directly e t q s)
       | Inl err \<Rightarrow> True)
   \<and> statements (events (snd (executeCrossSiteQuery e t [] q s)))
       = statements (events s) @ (case fst (getLibSQLClient e t s) of Inl err \<Rightarrow> [] | Inr c \<Rightarrow> [q])"
proof -
  obtain r s1 where g: "getLibSQLClient e t s = (r, s1)" by (cases "getLibSQLClient e t s")
  have s1: "statements (events s1) = statements (events s)"
    using getLibSQLClient_statements [of e t s] g by simp
  show ?thesis
    unfolding executeCrossSiteQuery_def query_primary_directly_def g
    by (cases r) (auto simp: s1 statements_append split: sum.splits)
qed

theorem federate_no_secondaries_witness:
  "fst (executeCrossSiteQuery test_env (Some ''creator1'') [] ''SELECT 1'' new_manager)
     = fst (query_primary_directly test_env (Some ''creator1'') ''SELECT 1'' new_manager)
   \<and> snd (executeCrossSiteQuery test_env (Some ''creator1'') [] ''SELECT 1'' new_manager)
       = (snd (query_primary_directly test_env (Some ''creator1'') ''SELECT 1'' new_manager))
           \<lparr>logs := logs (snd (executeCrossSiteQuery test_env (Some ''creator1'') []
                                ''SELECT 1'' new_manager))\<rparr>
   \<and> (case fst (executeCrossSiteQuery test_env (Some ''creator1'') [] ''SELECT 1'' new_manager) of
         Inr rows \<Rightarrow>
           snd (executeCrossSiteQuery test_env (Some ''creator1'') [] ''SELECT 1'' new_manager)
             = snd (query_primary_directly test_env (Some ''creator1'') ''SELECT 1'' new_manager)
       | Inl err \<Rightarrow> True)
   \<and> statements (events (snd (executeCrossSiteQuery test_env (Some ''creator1'') []
                                ''SELECT 1'' new_manager)))
       = statements (events new_manager)
           @ (case fst (getLibSQLClient test_env (Some ''creator1'') new_manager) of
                Inl err \<Rightarrow> [] | Inr c \<Rightarrow> [''SELECT 1''])"
  by (rule federate_no_secondaries)


subsection \<open>The stored current site\<close>

text \<open>Each operation, run from two states that differ at most in the stored current
  site, gives the same result and two states that again differ at most there, and does
  not touch the stored value.\<close>

lemma attach_loop_currentSite:
  "differ_only_in_currentSite s s' \<Longrightarrow>
     fst (attach_loop e c i ids s) = fst (attach_loop e c i ids s')
   \<and> differ_only_in_currentSite (snd (attach_loop e c i ids s)) (snd (attach_loop e c i ids s'))
   \<and> currentSite (snd (attach_loop e c i ids s)) = currentSite s"
proof (induction ids arbitrary: i s s')
  case Nil
  then show ?case by simp
next
  case (Cons a ids)
  have eq: "events s = events s'" "logs s = logs s'"
    using Cons.prems by (simp_all add: differ_only_in_currentSite_def)
  have step: "\<And>E L. differ_only_in_currentSite (s\<lparr>events := E, logs := L\<rparr>) (s'\<lparr>events := E, logs := L\<rparr>)"
    using Cons.prems by (simp add: differ_only_in_currentSite_def)
  show ?case
    using Cons.IH [OF step] Cons.prems
    by (auto simp: eq Let_def differ_only_in_currentSite_def
             split: prod.splits sum.splits option.splits)
qed

lemma destroy_connections_currentSite:
  "differ_only_in_currentSite s s' \<Longrightarrow>
     fst (destroy_connections e m s) = fst (destroy_connections e m s')
   \<and> differ_only_in_currentSite (snd (destroy_connections e m s)) (snd (destroy_connections e m s'))
   \<and> currentSite (snd (destroy_connections e m s)) = currentSite s"
proof (induction m arbitrary: s s')
  case Nil
  then show ?case by simp
next
  case (Cons a m)
  obtain k h where a: "a = (k, h)" by (cases a)
  have eq: "events s = events s'" "logs s = logs s'"
    using Cons.prems by (simp_all add: differ_only_in_currentSite_def)
  have step: "\<And>E L. differ_only_in_currentSite (s\<lparr>events := E, logs := L\<rparr>) (s'\<lparr>events := E, logs := L\<rparr>)"
    using Cons.prems by (simp add: differ_only_in_currentSite_def)
  show ?case
    using Cons.IH [OF step] Cons.prems
    by (auto simp: a eq differ_only_in_currentSite_def split: option.splits)
qed

lemma close_clients_currentSite:
  "differ_only_in_currentSite s s' \<Longrightarrow>
     fst (close_clients e m s) = fst (close_clients e m s')
   \<and> differ_only_in_currentSite (snd (close_clients e m s)) (snd (close_clients e m s'))
   \<and> currentSite (snd (close_clients e m s)) = currentSite s"
proof (induction m arbitrary: s s')
  case Nil
  then show ?case by simp
next
  case (Cons a m)
  obtain k h where a: "a = (k, h)" by (cases a)
  have eq: "events s = events s'" "logs s = logs s'"
    using Cons.prems by (simp_all add: differ_only_in_currentSite_def)
  have step: "\<And>E L. differ_only_in_currentSite (s\<lparr>events := E, logs := L\<rparr>) (s'\<lparr>events := E, logs := L\<rparr>)"
    using Cons.prems by (simp add: differ_only_in_currentSite_def)
  show ?case
    using Cons.IH [OF step] Cons.prems
    by (auto simp: a eq differ_only_in_currentSite_def split: option.splits)
qed

lemma getSiteConnection_currentSite:
  "differ_only_in_currentSite s s' \<Longrightarrow>
     fst (getSiteConnection e t s) = fst (getSiteConnection e t s')
   \<and> differ_only_in_currentSite (snd (getSiteConnection e t s)) (snd (getSiteConnection e t s'))
   \<and> currentSite (snd (getSiteConnection e t s)) = currentSite s"
  unfolding getSiteConnection_def differ_only_in_currentSite_def
  by (simp add: Let_def split: prod.splits sum.splits option.splits)

lemma getLibSQLClient_currentSite:
  "differ_only_in_currentSite s s' \<Longrightarrow>
     fst (getLibSQLClient e t s) = fst (getLibSQLClient e t s')
   \<and> differ_only_in_currentSite (snd (getLibSQLClient e t s)) (snd (getLibSQLClient e t s'))
   \<and> currentSite (snd (getLibSQLClient e t s)) = currentSite s"
  unfolding getLibSQLClient_def differ_only_in_currentSite_def
  by (simp add: Let_def split: prod.splits sum.splits option.splits)

lemma createSite_currentSite:
  "differ_only_in_currentSite s s' \<Longrightarrow>
     fst (createSite e t s) = fst (createSite e t s')
   \<and> differ_only_in_currentSite (snd (createSite e t s)) (snd (createSite e t s'))
   \<and> currentSite (snd (createSite e t s)) = currentSite s"
  using getSiteConnection_currentSite [of s s' e t]
  unfolding createSite_def
  by (auto simp: differ_only_in_currentSite_def split: prod.splits sum.splits)

lemma executeCrossSiteQuery_currentSite:
  assumes "differ_only_in_currentSite s s'"
  shows "fst (executeCrossSiteQuery e t ids q s) = fst (executeCrossSiteQuery e t ids q s')
   \<and> differ_only_in_currentSite (snd (executeCrossSiteQuery e t ids q s))
        (snd (executeCrossSiteQuery e t ids q s'))
   \<and> currentSite (snd (executeCrossSiteQuery e t ids q s)) = currentSite s"
proof -
  obtain r s1 where g: "getLibSQLClient e t s = (r, s1)" by (cases "getLibSQLClient e t s")
  obtain r' s1' where g': "getLibSQLClient e t s' = (r', s1')" by (cases "getLibSQLClient e t s'")
  from getLibSQLClient_currentSite [OF assms, of e t] g g'
  have rr: "r' = r" and d1: "differ_only_in_currentSite s1 s1'" and c1: "currentSite s1 = currentSite s"
    by simp_all
  show ?thesis
  proof (cases r)
    case (Inl err)
    then show ?thesis using g g' rr d1 c1 by (simp add: executeCrossSiteQuery_def)
  next
    case (Inr c)
    obtain a s2 where l: "attach_loop e c 0 ids s1 = (a, s2)" by (cases "attach_loop e c 0 ids s1")
    obtain a' s2' where l': "attach_loop e c 0 ids s1' = (a', s2')" by (cases "attach_loop e c 0 ids s1'")
    from attach_loop_currentSite [OF d1, of e c 0 ids] l l'
    have aa: "a' = a" and d2: "differ_only_in_currentSite s2 s2'" and c2: "currentSite s2 = currentSite s1"
      by simp_all
    show ?thesis
      using g g' rr Inr l l' aa d2 c2 c1
      by (auto simp: executeCrossSiteQuery_def differ_only_in_currentSite_def
               split: option.splits sum.splits)
  qed
qed

lemma destroy_currentSite:
  assumes "differ_only_in_currentSite s s'"
  shows "fst (destroy e s) = fst (destroy e s')
   \<and> differ_only_in_currentSite (snd (destroy e s)) (snd (destroy e s'))
   \<and> currentSite (snd (destroy e s)) = currentSite s"
proof -
  have cs: "connections s' = connections s" using assms by (simp add: differ_only_in_currentSite_def)
  obtain a s1 where l: "destroy_connections e (connections s) s = (a, s1)"
    by (cases "destroy_connections e (connections s) s")
  obtain a' s1' where l': "destroy_connections e (connections s) s' = (a', s1')"
    by (cases "destroy_connections e (connections s) s'")
  from destroy_connections_currentSite [OF assms, of e "connections s"] l l'
  have aa: "a' = a" and d1: "differ_only_in_currentSite s1 s1'" and c1: "currentSite s1 = currentSite s"
    by simp_all
  have ls: "libsqlClients s1' = libsqlClients s1" using d1 by (simp add: differ_only_in_currentSite_def)
  obtain b s2 where m: "close_clients e (libsqlClients s1) s1 = (b, s2)"
    by (cases "close_clients e (libsqlClients s1) s1")
  obtain b' s2' where m': "close_clients e (libsqlClients s1) s1' = (b', s2')"
    by (cases "close_clients e (libsqlClients s1) s1'")
  from close_clients_currentSite [OF d1, of e "libsqlClients s1"] m m'
  have bb: "b' = b" and d2: "differ_only_in_currentSite s2 s2'" and c2: "currentSite s2 = currentSite s1"
    by simp_all
  show ?thesis
    using cs l l' aa d1 c1 ls m m' bb d2 c2
    by (auto simp: destroy_def differ_only_in_currentSite_def split: option.splits)
qed

text \<open>
  C4, as the claim states it, fails: the manager does keep a current site. What
  \<open>setCurrentSite\<close> stored is what \<open>getCurrentSite\<close> returns, so two managers that were
  told different sites answer differently.
\<close>

theorem currentSite_is_stored:
  "getCurrentSite (setCurrentSite (Some ''creator1'') new_manager) = Some ''creator1''
   \<and> getCurrentSite (setCurrentSite (Some ''creator2'') new_manager) = Some ''creator2''
   \<and> getCurrentSite (setCurrentSite (Some ''creator1'') new_manager)
        \<noteq> getCurrentSite (setCurrentSite (Some ''creator2'') new_manager)"
  by (simp add: getCurrentSite_def setCurrentSite_def)

text \<open>
  C4, amended. The manager keeps a current site, set by \<open>setCurrentSite\<close> and read by
  \<open>getCurrentSite\<close> only. Every pool and federation operation takes the site id as a
  parameter and never reads the stored one: two runs of \<open>getSiteConnection\<close>,
  \<open>getLibSQLClient\<close>, \<open>createSite\<close>, \<open>executeCrossSiteQuery\<close> or \<open>destroy\<close> from states that
  differ only in the stored current site return the same result and end in states that
  differ only there, the stored value being left as it was.
\<close>

theorem operations_ignore_currentSite:
  "differ_only_in_currentSite s s' \<Longrightarrow>
     (fst (getSiteConnection e t s) = fst (getSiteConnection e t s')
      \<and> differ_only_in_currentSite (snd (getSiteConnection e t s)) (snd (getSiteConnection e t s'))
      \<and> currentSite (snd (getSiteConnection e t s)) = currentSite s)
   \<and> (fst (getLibSQLClient e t s) = fst (getLibSQLClient e t s')
      \<and> differ_only_in_currentSite (snd (getLibSQLClient e t s)) (snd (getLibSQLClient e t s'))
      \<and> currentSite (snd (getLibSQLClient e t s)) = currentSite s)
   \<and> (fst (createSite e t s) = fst (createSite e t s')
      \<and> differ_only_in_currentSite (snd (createSite e t s)) (snd (createSite e t s'))
      \<and> currentSite (snd (createSite e t s)) = currentSite s)
   \<and> (fst (executeCrossSiteQuery e t ids q s) = fst (executeCrossSiteQuery e t ids q s')
      \<and> differ_only_in_currentSite (snd (executeCrossSiteQuery e t ids q s))
           (snd (executeCrossSiteQuery e t ids q s'))
      \<and> currentSite (snd (executeCrossSiteQuery e t ids q s)) = currentSite s)
   \<and> (fst (destroy e s) = fst (destroy e s')
      \<and> differ_only_in_currentSite (snd (destroy e s)) (snd (destroy e s'))
      \<and> currentSite (snd (destroy e s)) = currentSite s)"
  by (intro conjI getSiteConnection_currentSite getLibSQLClient_currentSite
        createSite_currentSite executeCrossSiteQuery_currentSite destroy_currentSite)

theorem operations_ignore_currentSite_witness:
  "(fst (getSiteConnection test_env (Some ''creator1'') new_manager)
      = fst (getSiteConnection test_env (Some ''creator1'')
               (setCurrentSite (Some ''creator2'') new_manager))
      \<and> differ_only_in_currentSite (snd (getSiteConnection test_env (Some ''creator1'') new_manager))
           (snd (getSiteConnection test_env (Some ''creator1'')
                  (setCurrentSite (Some ''creator2'') new_manager)))
      \<and> currentSite (snd (getSiteConnection test_env (Some ''creator1'') new_manager))
           = currentSite new_manager)
   \<and> (fst (getLibSQLClient test_env (Some ''creator1'') new_manager)
      = fst (getLibSQLClient test_env (Some ''creator1'')
               (setCurrentSite (Some ''creator2'') new_manager))
      \<and> differ_only_in_currentSite (snd (getLibSQLClient test_env (Some ''creator1'') new_manager))
           (snd (getLibSQLClient test_env (Some ''creator1'')
                  (setCurrentSite (Some ''creator2'') new_manager)))
      \<and> currentSite (snd (getLibSQLClient test_env (Some ''creator1'') new_manager))
           = currentSite new_manager)
   \<and> (fst (createSite test_env (Some ''creator1'') new_manager)
      = fst (createSite test_env (Some ''creator1'')
               (setCurrentSite (Some ''creator2'') new_manager))
      \<and> differ_only_in_currentSite (snd (createSite test_env (Some ''creator1'') new_manager))
           (snd (createSite test_env (Some ''creator1'')
                  (setCurrentSite (Some ''creator2'') new_manager)))
      \<and> currentSite (snd (createSite test_env (Some ''creator1'') new_manager))
           = currentSite new_manager)
   \<and> (fst (executeCrossSiteQuery test_env (Some ''creator1'') [''creator2''] ''SELECT 1'' new_manager)
      = fst (executeCrossSiteQuery test_env (Some ''creator1'') [''creator2''] ''SELECT 1''
               (setCurrentSite (Some ''creator2'') new_manager))
      \<and> differ_only_in_currentSite
           (snd (executeCrossSiteQuery test_env (Some ''creator1'') [''creator2''] ''SELECT 1''
                  new_manager))
           (snd (executeCrossSiteQuery test_env (Some ''creator1'') [''creator2''] ''SELECT 1''
                  (setCurrentSite (Some ''creator2'') new_manager)))
      \<and> currentSite (snd (executeCrossSiteQuery test_env (Some ''creator1'') [''creator2'']
                             ''SELECT 1'' new_manager))
           = currentSite new_manager)
   \<and> (fst (destroy test_env new_manager)
      = fst (destroy test_env (setCurrentSite (Some ''creator2'') new_manager))
      \<and> differ_only_in_currentSite (snd (destroy test_env new_manager))
           (snd (destroy test_env (setCurrentSite (Some ''creator2'') new_manager)))
      \<and> currentSite (snd (destroy test_env new_manager)) = currentSite new_manager)"
proof -
  have h: "differ_only_in_currentSite new_manager (setCurrentSite (Some ''creator2'') new_manager)"
    by (simp add: differ_only_in_currentSite_def setCurrentSite_def)
  show ?thesis by (rule operations_ignore_currentSite [OF h])
qed


subsection \<open>What a federation call sends to the primary's client\<close>












subsection \<open>A failing attach\<close>






subsection \<open>Shutdown\<close>









subsection \<open>The locator of a site\<close>






















subsection \<open>Site ids are not validated\<close>






end
